theory Spec2Isabelle
  imports Complex_Main "HOL-Library.Multiset" "HOL-Library.Sublist"
begin

section \<open>JavaScript string primitives used by the three components\<close>

text \<open>
  Strings are lists of \<^typ>\<open>char\<close>; a character stands for the UTF-16 code unit with the
  same number (0 to 255). The built-in operations are modelled from their ECMAScript
  meaning on that range.
\<close>

definition isWhiteSpace :: "char \<Rightarrow> bool" where
  \<comment> \<open>the class \<open>\s\<close> of a regular expression, which is also what \<open>trim()\<close> strips:
      TAB, LF, VT, FF, CR, SPACE and NBSP.\<close>
  "isWhiteSpace c \<longleftrightarrow> (of_char c :: nat) \<in> {9, 10, 11, 12, 13, 32, 160}"

definition toLowerChar :: "char \<Rightarrow> char" where
  \<comment> \<open>\<open>A\<close>..\<open>Z\<close> and the capital letters \<open>0xC0\<close>..\<open>0xDE\<close> (but not the sign \<open>0xD7\<close>)
      move up by 32; every other code unit is left as it is.\<close>
  "toLowerChar c =
     (let n = (of_char c :: nat)
      in if (65 \<le> n \<and> n \<le> 90) \<or> (192 \<le> n \<and> n \<le> 222 \<and> n \<noteq> 215)
         then char_of (n + 32) else c)"

definition toLowerCase :: "string \<Rightarrow> string" where
  "toLowerCase s = map toLowerChar s"

fun collapseFrom :: "bool \<Rightarrow> string \<Rightarrow> string" where
  \<comment> \<open>the flag says that the previous character belonged to a whitespace run, whose
      single replacement space has already been written\<close>
  "collapseFrom inRun [] = []"
| "collapseFrom inRun (c # cs) =
     (if isWhiteSpace c
      then (if inRun then collapseFrom True cs else CHR '' '' # collapseFrom True cs)
      else c # collapseFrom False cs)"

definition replaceWs :: "string \<Rightarrow> string" where
  \<comment> \<open>\<open>s.replace(/\s+/g, ' ')\<close>\<close>
  "replaceWs s = collapseFrom False s"

definition trim :: "string \<Rightarrow> string" where
  "trim s = rev (dropWhile isWhiteSpace (rev (dropWhile isWhiteSpace s)))"

definition startsWith :: "string \<Rightarrow> char \<Rightarrow> bool" where
  "startsWith s c = (case s of [] \<Rightarrow> False | d # _ \<Rightarrow> d = c)"

definition endsWith :: "string \<Rightarrow> char \<Rightarrow> bool" where
  "endsWith s c = (s \<noteq> [] \<and> last s = c)"

fun indexOfFrom :: "string \<Rightarrow> string \<Rightarrow> nat \<Rightarrow> int" where
  \<comment> \<open>\<open>indexOf\<close>: the smallest position at which the pattern begins, or \<open>-1\<close>\<close>
  "indexOfFrom pat [] k = (if pat = [] then int k else - 1)"
| "indexOfFrom pat (c # cs) k =
     (if take (length pat) (c # cs) = pat then int k else indexOfFrom pat cs (Suc k))"

definition indexOf :: "string \<Rightarrow> string \<Rightarrow> int" where
  "indexOf s pat = indexOfFrom pat s 0"

section \<open>Quote Locator: \<open>highlightQuote\<close> of \<open>PdfViewer.tsx\<close>\<close>

text \<open>
  A child element of the text layer: its text and the two style properties that
  \<open>highlightQuote\<close> writes. An element is referred to by its position in the layer.
\<close>

record span =
  textContent :: "string option"
  backgroundColor :: string
  borderRadius :: string

record mapping =
  m_start :: int
  m_end :: int
  m_element :: nat

definition normalizeQuote :: "string \<Rightarrow> string" where
  \<comment> \<open>\<open>quote.toLowerCase().replace(/\s+/g, ' ').trim()\<close>\<close>
  "normalizeQuote quote = trim (replaceWs (toLowerCase quote))"

definition spanText :: "span \<Rightarrow> string" where
  \<comment> \<open>\<open>span.textContent?.toLowerCase().replace(/\s+/g, ' ') || ' '\<close>\<close>
  "spanText sp =
     (case textContent sp of
        None \<Rightarrow> '' ''
      | Some t \<Rightarrow> (let r = replaceWs (toLowerCase t) in if r = [] then '' '' else r))"

definition clearHighlight :: "span \<Rightarrow> span" where
  "clearHighlight sp = sp\<lparr>backgroundColor := ''transparent'', borderRadius := ''0''\<rparr>"

definition markHighlight :: "span \<Rightarrow> span" where
  "markHighlight sp =
     sp\<lparr>backgroundColor := ''rgba(255, 230, 0, 0.4)'', borderRadius := ''2px''\<rparr>"

fun buildSpanMap :: "span list \<Rightarrow> nat \<Rightarrow> string \<times> mapping list \<Rightarrow> string \<times> mapping list" where
  \<comment> \<open>the first \<open>forEach\<close>: the state is \<open>(fullPageText, spanMap)\<close>\<close>
  "buildSpanMap [] i st = st"
| "buildSpanMap (sp # sps) i (fullPageText, spanMap) =
     (let text = spanText sp;
          startIndex = int (length fullPageText);
          fullPageText' = fullPageText @ text
      in buildSpanMap sps (Suc i)
           (fullPageText',
            spanMap @ [\<lparr>m_start = startIndex, m_end = int (length fullPageText'), m_element = i\<rparr>]))"

definition overlap :: "int \<Rightarrow> int \<Rightarrow> mapping \<Rightarrow> int" where
  "overlap quoteIndex quoteEnd m =
     max 0 (min quoteEnd (m_end m) - max quoteIndex (m_start m))"

fun markSpans :: "mapping list \<Rightarrow> int \<Rightarrow> int \<Rightarrow> span list \<times> nat list \<Rightarrow> span list \<times> nat list" where
  \<comment> \<open>the second \<open>forEach\<close>: the state is the elements and the list of elements on which
      \<open>scrollIntoView\<close> has been called, in call order\<close>
  "markSpans [] quoteIndex quoteEnd st = st"
| "markSpans (m # ms) quoteIndex quoteEnd (spans, scrolled) =
     (if overlap quoteIndex quoteEnd m > 0
      then markSpans ms quoteIndex quoteEnd
             (spans[m_element m := markHighlight (spans ! m_element m)],
              (if quoteIndex \<ge> m_start m \<and> quoteIndex < m_end m
               then scrolled @ [m_element m] else scrolled))
      else markSpans ms quoteIndex quoteEnd (spans, scrolled))"

definition highlightQuote :: "span list option \<Rightarrow> string \<Rightarrow> span list option \<times> nat list" where
  \<comment> \<open>the argument is the children of \<open>textLayerRef.current\<close>, \<open>None\<close> when the ref is null;
      the result is the elements after the call and the \<open>scrollIntoView\<close> calls made\<close>
  "highlightQuote textLayer quote =
     (case textLayer of
        None \<Rightarrow> (None, [])
      | Some spans \<Rightarrow>
          (let normalizedQuote = normalizeQuote quote;
               cleared = map clearHighlight spans
           in if normalizedQuote = [] then (Some cleared, [])
              else
                (let (fullPageText, spanMap) = buildSpanMap cleared 0 ([], []);
                     quoteIndex = indexOf fullPageText normalizedQuote
                 in if quoteIndex \<noteq> - 1
                    then (let quoteEnd = quoteIndex + int (length normalizedQuote);
                              (spans', scrolled) = markSpans spanMap quoteIndex quoteEnd (cleared, [])
                          in (Some spans', scrolled))
                    else (Some cleared, []))))"

definition highlighted :: "span \<Rightarrow> bool" where
  "highlighted sp \<longleftrightarrow> backgroundColor sp = ''rgba(255, 230, 0, 0.4)''"

text \<open>
  The vocabulary of the specification, for stating the properties: the concatenation of
  the fragment texts in document order, the offset interval of the \<open>i\<close>-th fragment in
  it, and the first occurrence of a pattern in a string.
\<close>

definition pageConcat :: "span list \<Rightarrow> string" where
  "pageConcat spans = concat (map spanText spans)"

definition fragStart :: "span list \<Rightarrow> nat \<Rightarrow> int" where
  "fragStart spans i = int (length (concat (map spanText (take i spans))))"

definition fragEnd :: "span list \<Rightarrow> nat \<Rightarrow> int" where
  "fragEnd spans i = fragStart spans (Suc i)"





section \<open>Layout Reconstructor: the page loop of \<open>parsePdf\<close>\<close>

text \<open>
  Numbers are JavaScript doubles in the source and real numbers here: the model has no
  rounding and no NaN. \<open>textItem\<close> is an element of \<open>textContent.items\<close> as the PDF
  library delivers it (\<open>transform[4]\<close> and \<open>transform[5]\<close> are the two fields read from
  the transform); \<open>glyphRun\<close> is the object that the \<open>map\<close> call builds from it.
\<close>

record textItem =
  item_str :: string
  item_transform4 :: real
  item_transform5 :: real
  item_height :: real
  item_width :: real
  item_hasEOL :: bool

record glyphRun =
  run_str :: string
  run_x :: real
  run_y :: real
  run_height :: real
  run_width :: real
  run_hasEOL :: bool

definition toRun :: "textItem \<Rightarrow> glyphRun" where
  \<comment> \<open>\<open>height: item.height || 10\<close>: a height of zero is replaced by 10\<close>
  "toRun item =
     \<lparr>run_str = item_str item,
      run_x = item_transform4 item,
      run_y = item_transform5 item,
      run_height = (if item_height item = 0 then 10 else item_height item),
      run_width = item_width item,
      run_hasEOL = item_hasEOL item\<rparr>"

definition compareRuns :: "glyphRun \<Rightarrow> glyphRun \<Rightarrow> real" where
  "compareRuns a b =
     (if \<bar>run_y a - run_y b\<bar> > run_height a * 0.5
      then run_y b - run_y a
      else run_x a - run_x b)"

text \<open>
  \<open>Array.prototype.sort\<close> is stable, and its result is fixed by the language only when the
  comparator is a consistent ordering of the elements. The model is stable insertion sort:
  an element goes in front of the first element that the comparator places after it.
\<close>

fun insertBy :: "('a \<Rightarrow> 'a \<Rightarrow> real) \<Rightarrow> 'a \<Rightarrow> 'a list \<Rightarrow> 'a list" where
  "insertBy cmp v [] = [v]"
| "insertBy cmp v (u # us) = (if cmp v u < 0 then v # u # us else u # insertBy cmp v us)"

definition sortBy :: "('a \<Rightarrow> 'a \<Rightarrow> real) \<Rightarrow> 'a list \<Rightarrow> 'a list" where
  "sortBy cmp xs = foldl (\<lambda>sorted v. insertBy cmp v sorted) [] xs"

record walkState =
  pageText :: string
  lastY :: real
  lastX :: real

definition joinBefore :: "walkState \<Rightarrow> glyphRun \<Rightarrow> string" where
  \<comment> \<open>the value of \<open>pageText\<close> after the joiner logic of one iteration, before the run's
      own text is appended\<close>
  "joinBefore st item =
     (if lastY st \<noteq> - 1 then
        (let dy = \<bar>run_y item - lastY st\<bar> in
         if dy > run_height item * 0.6 then
           (if dy > run_height item * 1.6 then
              (if endsWith (trim (pageText st)) (CHR ''-'')
               then butlast (trim (pageText st))
               else pageText st @ [CHR 0x0A, CHR 0x0A])
            else
              (if endsWith (trim (pageText st)) (CHR ''-'')
               then butlast (trim (pageText st))
               else pageText st @ '' ''))
         else
           (if lastX st \<noteq> - 1 \<and> run_x item > lastX st + run_height item * 0.2 then
              (if \<not> startsWith (run_str item) (CHR '' '') \<and> \<not> endsWith (pageText st) (CHR '' '')
               then pageText st @ '' ''
               else pageText st)
            else pageText st))
      else pageText st)"

definition stepRun :: "walkState \<Rightarrow> glyphRun \<Rightarrow> walkState" where
  "stepRun st item =
     \<lparr>pageText = joinBefore st item @ run_str item,
      lastY = run_y item,
      lastX = run_x item + run_width item\<rparr>"

definition walkRuns :: "glyphRun list \<Rightarrow> walkState" where
  "walkRuns items = foldl stepRun \<lparr>pageText = [], lastY = - 1, lastX = - 1\<rparr> items"

definition reconstructPage :: "textItem list \<Rightarrow> string" where
  \<comment> \<open>the body of the page loop: map, sort, walk\<close>
  "reconstructPage items = pageText (walkRuns (sortBy compareRuns (map toRun items)))"

definition documentText :: "textItem list list \<Rightarrow> string" where
  \<comment> \<open>\<open>fullText += pageText + '\n\n'\<close> for each page in turn\<close>
  "documentText pages =
     foldl (\<lambda>fullText items. fullText @ reconstructPage items @ [CHR 0x0A, CHR 0x0A]) [] pages"

datatype parseError = FailedToReadFile | CouldNotGetText

datatype pdfOutcome = PdfThrows | PdfPages "textItem list list"

definition parsePdf :: "pdfOutcome option \<Rightarrow> parseError + string" where
  \<comment> \<open>the argument is what the file reader and the PDF library deliver: \<open>None\<close> when the
      reader has no result, \<open>PdfThrows\<close> when the library raises inside the \<open>try\<close> block\<close>
  "parsePdf loaded =
     (case loaded of
        None \<Rightarrow> Inl FailedToReadFile
      | Some PdfThrows \<Rightarrow> Inl CouldNotGetText
      | Some (PdfPages pages) \<Rightarrow> Inr (documentText pages))"

text \<open>The vocabulary of the specification for the layout properties.\<close>

definition joinWith :: "string \<Rightarrow> string list \<Rightarrow> string" where
  \<comment> \<open>the texts with the separator between consecutive ones only\<close>
  "joinWith sep texts = concat (case texts of [] \<Rightarrow> [] | t # ts \<Rightarrow> t # map (\<lambda>u. sep @ u) ts)"







definition run :: "string \<Rightarrow> real \<Rightarrow> real \<Rightarrow> real \<Rightarrow> real \<Rightarrow> textItem" where
  \<comment> \<open>an item with the given text, x, y, height and width\<close>
  "run t px py h w =
     \<lparr>item_str = t, item_transform4 = px, item_transform5 = py, item_height = h,
      item_width = w, item_hasEOL = False\<rparr>"

section \<open>Citation Token Parser: \<open>parsedContent\<close> of \<open>Message.tsx\<close>\<close>

subsection \<open>The regular expression\<close>

definition isDigit :: "char \<Rightarrow> bool" where
  \<comment> \<open>the class \<open>\d\<close>\<close>
  "isDigit c \<longleftrightarrow> 48 \<le> (of_char c :: nat) \<and> (of_char c :: nat) \<le> 57"

definition isQuoteChar :: "char \<Rightarrow> bool" where
  \<comment> \<open>the class \<open>["']\<close>\<close>
  "isQuoteChar c \<longleftrightarrow> c = CHR 0x22 \<or> c = CHR 0x27"

definition skipWs :: "string \<Rightarrow> string" where
  \<comment> \<open>\<open>\s*\<close>, which is greedy and is never followed by something that could match
      whitespace\<close>
  "skipWs s = dropWhile isWhiteSpace s"

definition matchQuoteGroup :: "string \<Rightarrow> (string \<times> string) option" where
  \<comment> \<open>\<open>\|\s*["']([^"']+)["']\<close> at the head of the string: the captured text and the
      rest of the string\<close>
  "matchQuoteGroup s =
     (case s of
        [] \<Rightarrow> None
      | c # r \<Rightarrow>
          if c \<noteq> CHR ''|'' then None
          else (case skipWs r of
                  [] \<Rightarrow> None
                | q # r1 \<Rightarrow>
                    if \<not> isQuoteChar q then None
                    else (let body = takeWhile (\<lambda>d. \<not> isQuoteChar d) r1;
                              r2 = dropWhile (\<lambda>d. \<not> isQuoteChar d) r1
                          in if body = [] then None
                             else (case r2 of [] \<Rightarrow> None | q' # r3 \<Rightarrow> Some (body, r3)))))"

definition matchClose :: "string \<Rightarrow> string option" where
  \<comment> \<open>\<open>\s*\]\<close> at the head of the string: the rest of the string\<close>
  "matchClose s = (case skipWs s of [] \<Rightarrow> None | c # r \<Rightarrow> if c = CHR '']'' then Some r else None)"

definition matchNumber :: "string \<Rightarrow> (string \<times> string) option" where
  \<comment> \<open>\<open>\s*(\d+)\s*\<close> at the head of the string: the captured digits and the rest of the
      string\<close>
  "matchNumber s =
     (let r = skipWs s; digits = takeWhile isDigit r
      in if digits = [] then None else Some (digits, skipWs (dropWhile isDigit r)))"

definition matchCitation :: "string \<Rightarrow> (string \<times> string \<times> string option \<times> string) option" where
  \<comment> \<open>\<open>\[\s*(\d+)\s*:\s*(\d+)\s*(?:\|\s*["']([^"']+)["'])?\s*\]\<close> at the head of the
      string: the three captures and the rest of the string. Every repetition of the
      expression is followed by something that cannot match one more character of it, so
      the greedy reading is the only one and no backtracking is possible.\<close>
  "matchCitation s =
     (case s of
        [] \<Rightarrow> None
      | c # r0 \<Rightarrow>
          if c \<noteq> CHR ''['' then None
          else (case matchNumber r0 of
                  None \<Rightarrow> None
                | Some (docIdx, r1) \<Rightarrow>
                    (case r1 of
                       [] \<Rightarrow> None
                     | c1 # r2 \<Rightarrow>
                         if c1 \<noteq> CHR '':'' then None
                         else (case matchNumber r2 of
                                 None \<Rightarrow> None
                               | Some (pageNum, r3) \<Rightarrow>
                                   (case matchQuoteGroup r3 of
                                      Some (quote, r4) \<Rightarrow>
                                        (case matchClose r4 of
                                           Some rest \<Rightarrow> Some (docIdx, pageNum, Some quote, rest)
                                         | None \<Rightarrow> None)
                                    | None \<Rightarrow>
                                        (case matchClose r3 of
                                           Some rest \<Rightarrow> Some (docIdx, pageNum, None, rest)
                                         | None \<Rightarrow> None))))))"

text \<open>
  The global replacement visits the matches from left to right, each search starting where
  the previous match ended. A piece is either one character outside every match or one
  match with the arguments that the replacement callback receives: the matched text and
  the three captures. A match always consumes at least its opening bracket (lemma
  \<open>matchCitation_shorter\<close> below), so the length test in \<open>scanCitations\<close> always succeeds;
  it is there to make the recursion visibly terminating.
\<close>

datatype piece = Lit char | Hit string string string "string option"

function scanCitations :: "string \<Rightarrow> piece list" where
  "scanCitations [] = []"
| "scanCitations (c # cs) =
     (case matchCitation (c # cs) of
        Some (docIdx, pageNum, quote, rest) \<Rightarrow>
          (if length rest < length (c # cs)
           then Hit (take (length (c # cs) - length rest) (c # cs)) docIdx pageNum quote
                  # scanCitations rest
           else [Lit c])
      | None \<Rightarrow> Lit c # scanCitations cs)"
  by pat_completeness auto
termination
  by (relation "measure length") auto

subsection \<open>Placeholders and the citation map\<close>



definition token :: "string \<Rightarrow> string \<Rightarrow> string \<Rightarrow> string" where
  \<comment> \<open>\<open>`CITATIONTOKEN${docIdx}X${pageNum}X${suffix}`\<close>, where the suffix is
      \<open>Math.random().toString(36).substr(2, 9)\<close>\<close>
  "token docIdx pageNum sfx = ''CITATIONTOKEN'' @ docIdx @ ''X'' @ pageNum @ ''X'' @ sfx"



text \<open>
  The callback draws one random suffix per match. \<open>rnd k\<close> is the suffix drawn for the
  \<open>k\<close>-th match (counting from 0). The replacement produces the text with every match
  replaced by its placeholder; the callback's side effect fills the citation map.
\<close>

fun substituteFrom :: "(nat \<Rightarrow> string) \<Rightarrow> nat \<Rightarrow> piece list \<Rightarrow> string" where
  "substituteFrom rnd k [] = []"
| "substituteFrom rnd k (Lit c # ps) = c # substituteFrom rnd k ps"
| "substituteFrom rnd k (Hit m docIdx pageNum q # ps) =
     token docIdx pageNum (rnd k) @ substituteFrom rnd (Suc k) ps"


definition processedText :: "(nat \<Rightarrow> string) \<Rightarrow> string \<Rightarrow> string" where
  "processedText rnd text = substituteFrom rnd 0 (scanCitations text)"


subsection \<open>Re-injection\<close>










text \<open>The vocabulary of the specification for the citation properties.\<close>

definition allWs :: "string \<Rightarrow> bool" where
  "allWs w \<longleftrightarrow> list_all isWhiteSpace w"

definition allDigits :: "string \<Rightarrow> bool" where
  "allDigits d \<longleftrightarrow> d \<noteq> [] \<and> list_all isDigit d"

definition citationForm :: "string \<Rightarrow> string \<Rightarrow> string \<Rightarrow> string option \<Rightarrow> bool" where
  \<comment> \<open>the string is one citation marker with the given captures: bracket, index, colon,
      page, optionally a bar and a quoted text, bracket, with optional whitespace
      \<open>w1\<close>..\<open>w6\<close> where the expression allows it. The two quote characters need not be the
      same one, and the quoted text is non-empty and has no quote character in it.\<close>
  "citationForm m docIdx pageNum q \<longleftrightarrow>
     allDigits docIdx \<and> allDigits pageNum \<and>
     (\<exists>w1 w2 w3 w4. allWs w1 \<and> allWs w2 \<and> allWs w3 \<and> allWs w4 \<and>
        (case q of
           None \<Rightarrow> m = ''['' @ w1 @ docIdx @ w2 @ '':'' @ w3 @ pageNum @ w4 @ '']''
         | Some body \<Rightarrow>
             body \<noteq> [] \<and> list_all (\<lambda>c. \<not> isQuoteChar c) body \<and>
             (\<exists>w5 w6 q1 q2. allWs w5 \<and> allWs w6 \<and> isQuoteChar q1 \<and> isQuoteChar q2 \<and>
                m = ''['' @ w1 @ docIdx @ w2 @ '':'' @ w3 @ pageNum @ w4 @ ''|'' @ w5
                      @ [q1] @ body @ [q2] @ w6 @ '']'')))"











section \<open>Properties of the Quote Locator\<close>





lemma spanText_clearHighlight: "spanText (clearHighlight sp) = spanText sp"
  by (simp add: spanText_def clearHighlight_def)

lemma spanText_nonempty: "spanText sp \<noteq> []"
  by (simp add: spanText_def Let_def split: option.splits)

lemma highlighted_clear: "\<not> highlighted (clearHighlight sp)"
  by (simp add: highlighted_def clearHighlight_def)



lemma fragStart_map_clear: "fragStart (map clearHighlight spans) i = fragStart spans i"
  by (simp add: fragStart_def take_map comp_def spanText_clearHighlight)

lemma pageConcat_map_clear: "pageConcat (map clearHighlight spans) = pageConcat spans"
  by (simp add: pageConcat_def comp_def spanText_clearHighlight)

lemma fragStart_0: "fragStart spans 0 = 0"
  by (simp add: fragStart_def)

lemma fragStart_Cons: "fragStart (sp # sps) (Suc k) = int (length (spanText sp)) + fragStart sps k"
  by (simp add: fragStart_def)



lemma fragEnd_gt: "i < length spans \<Longrightarrow> fragStart spans i < fragEnd spans i"
  by (simp add: fragStart_def fragEnd_def take_Suc_conv_app_nth spanText_nonempty)

lemma buildSpanMap_eq:
  "buildSpanMap sps i (full, acc) =
     (full @ pageConcat sps,
      acc @ map (\<lambda>k. \<lparr>m_start = int (length full) + fragStart sps k,
                      m_end = int (length full) + fragEnd sps k,
                      m_element = i + k\<rparr>) [0..<length sps])"
proof (induction sps arbitrary: i full acc)
  case Nil
  then show ?case by (simp add: pageConcat_def)
next
  case (Cons sp sps)
  have upt: "[0..<length (sp # sps)] = 0 # map Suc [0..<length sps]"
    by (simp add: upt_conv_Cons map_Suc_upt del: upt_Suc)
  show ?case unfolding upt
    by (simp add: Let_def Cons.IH pageConcat_def fragStart_0 fragEnd_def fragStart_Cons comp_def)
qed







lemma buildSpanMap_cleared:
  "buildSpanMap (map clearHighlight spans) 0 ([], []) =
     (pageConcat spans,
      map (\<lambda>k. \<lparr>m_start = fragStart spans k, m_end = fragEnd spans k, m_element = k\<rparr>)
        [0..<length spans])"
  by (simp add: buildSpanMap_eq pageConcat_map_clear fragStart_map_clear fragEnd_def)

lemma highlightQuote_unfold:
  "highlightQuote (Some spans) quote =
     (if normalizeQuote quote = [] \<or> indexOf (pageConcat spans) (normalizeQuote quote) = - 1
      then (Some (map clearHighlight spans), [])
      else (let qi = indexOf (pageConcat spans) (normalizeQuote quote);
                r = markSpans
                      (map (\<lambda>k. \<lparr>m_start = fragStart spans k, m_end = fragEnd spans k,
                                     m_element = k\<rparr>) [0..<length spans])
                      qi (qi + int (length (normalizeQuote quote)))
                      (map clearHighlight spans, [])
            in (Some (fst r), snd r)))"
proof (cases "normalizeQuote quote = []")
  case True
  then show ?thesis unfolding highlightQuote_def by simp
next
  case ne: False
  show ?thesis
  proof (cases "indexOf (pageConcat spans) (normalizeQuote quote) = - 1")
    case True
    with ne show ?thesis
      unfolding highlightQuote_def option.case Let_def buildSpanMap_cleared prod.case by simp
  next
    case False
    with ne show ?thesis
      unfolding highlightQuote_def option.case Let_def buildSpanMap_cleared prod.case
      by (simp add: case_prod_beta)
  qed
qed




lemma isWhiteSpace_toLowerChar: "isWhiteSpace (toLowerChar c) = isWhiteSpace c"
  unfolding isWhiteSpace_def toLowerChar_def Let_def by auto

lemma list_all_ws_toLowerCase: "list_all isWhiteSpace (toLowerCase s) = list_all isWhiteSpace s"
  by (induction s) (simp_all add: toLowerCase_def isWhiteSpace_toLowerChar)

lemma isWhiteSpace_space: "isWhiteSpace (CHR '' '')"
  by (simp add: isWhiteSpace_def)

lemma list_all_ws_collapseFrom: "list_all isWhiteSpace (collapseFrom b s) = list_all isWhiteSpace s"
  by (induction s arbitrary: b) (simp_all add: isWhiteSpace_space)


lemma trim_empty: "trim s = [] \<longleftrightarrow> list_all isWhiteSpace s"
proof -
  have "trim s = [] \<longleftrightarrow> (\<forall>c\<in>set (dropWhile isWhiteSpace s). isWhiteSpace c)"
    by (simp add: trim_def dropWhile_eq_Nil_conv)
  also have "\<dots> \<longleftrightarrow> (\<forall>c\<in>set s. isWhiteSpace c)"
  proof
    assume a: "\<forall>c\<in>set (dropWhile isWhiteSpace s). isWhiteSpace c"
    show "\<forall>c\<in>set s. isWhiteSpace c"
    proof (cases "dropWhile isWhiteSpace s")
      case Nil
      then show ?thesis by (simp add: dropWhile_eq_Nil_conv)
    next
      case (Cons d ds)
      then have "\<not> isWhiteSpace d" by (metis hd_dropWhile list.sel(1) list.distinct(1))
      with a Cons show ?thesis by simp
    qed
  next
    assume "\<forall>c\<in>set s. isWhiteSpace c"
    then show "\<forall>c\<in>set (dropWhile isWhiteSpace s). isWhiteSpace c"
      by (meson set_dropWhileD)
  qed
  finally show ?thesis by (simp add: list_all_iff)
qed

lemma normalizeQuote_empty: "normalizeQuote quote = [] \<longleftrightarrow> list_all isWhiteSpace quote"
  by (simp add: normalizeQuote_def trim_empty replaceWs_def list_all_ws_collapseFrom
        list_all_ws_toLowerCase)

lemma indexOf_Nil: "indexOf s [] = 0"
  by (cases s) (simp_all add: indexOf_def)

lemma none_highlighted_clear: "list_all (\<lambda>sp. \<not> highlighted sp) (map clearHighlight spans)"
  by (simp add: list_all_iff highlighted_clear)





text \<open>
  Claim C10. The normalized quote is empty exactly when the quote is empty or consists of
  whitespace only. For such a quote every prior highlight is cleared, no fragment is
  highlighted and nothing is scrolled, although the empty string does occur at offset 0 of
  the concatenation.
\<close>
theorem quote_locator_blank_quote:
  "(normalizeQuote quote = [] \<longleftrightarrow> list_all isWhiteSpace quote) \<and>
   (list_all isWhiteSpace quote \<longrightarrow>
      indexOf (pageConcat spans) (normalizeQuote quote) = 0 \<and>
      highlightQuote (Some spans) quote = (Some (map clearHighlight spans), []) \<and>
      list_all (\<lambda>sp. \<not> highlighted sp) (map clearHighlight spans))"
proof (intro conjI impI)
  show "normalizeQuote quote = [] \<longleftrightarrow> list_all isWhiteSpace quote"
    by (rule normalizeQuote_empty)
next
  assume "list_all isWhiteSpace quote"
  then have e: "normalizeQuote quote = []" by (simp add: normalizeQuote_empty)
  show "indexOf (pageConcat spans) (normalizeQuote quote) = 0"
    unfolding e by (rule indexOf_Nil)
  show "highlightQuote (Some spans) quote = (Some (map clearHighlight spans), [])"
    by (simp add: highlightQuote_unfold e)
  show "list_all (\<lambda>sp. \<not> highlighted sp) (map clearHighlight spans)"
    by (rule none_highlighted_clear)
qed

theorem quote_locator_blank_quote_witness:
  "list_all isWhiteSpace [CHR '' '', CHR 0x09, CHR 0x0A] \<and>
   normalizeQuote [CHR '' '', CHR 0x09, CHR 0x0A] = [] \<and>
   indexOf (pageConcat [\<lparr>textContent = Some ''The '', backgroundColor = ''rgba(255, 230, 0, 0.4)'',
                          borderRadius = ''2px''\<rparr>]) (normalizeQuote [CHR '' '', CHR 0x09, CHR 0x0A]) = 0 \<and>
   highlightQuote (Some [\<lparr>textContent = Some ''The '', backgroundColor = ''rgba(255, 230, 0, 0.4)'',
                          borderRadius = ''2px''\<rparr>]) [CHR '' '', CHR 0x09, CHR 0x0A]
     = (Some [\<lparr>textContent = Some ''The '', backgroundColor = ''transparent'', borderRadius = ''0''\<rparr>], [])"
proof -
  let ?q = "[CHR '' '', CHR 0x09, CHR 0x0A]"
  let ?S = "[\<lparr>textContent = Some ''The '', backgroundColor = ''rgba(255, 230, 0, 0.4)'',
               borderRadius = ''2px''\<rparr>]"
  have h: "list_all isWhiteSpace ?q" by (simp add: isWhiteSpace_def)
  from h quote_locator_blank_quote[of ?q ?S] show ?thesis
    by (simp add: clearHighlight_def indexOf_Nil)
qed














section \<open>Properties of the Layout Reconstructor\<close>

lemma foldl_append_concat: "foldl (\<lambda>acc x. acc @ f x) a xs = a @ concat (map f xs)"
  by (induction xs arbitrary: a) simp_all

lemma documentText_concat:
  "documentText pages = concat (map (\<lambda>items. reconstructPage items @ [CHR 0x0A, CHR 0x0A]) pages)"
  unfolding documentText_def by (simp add: foldl_append_concat)

lemma joinWith_terminated:
  assumes "texts \<noteq> []"
  shows "joinWith sep texts @ sep = concat (map (\<lambda>t. t @ sep) texts)"
proof (cases texts)
  case Nil
  with assms show ?thesis by simp
next
  case (Cons t ts)
  have "concat (map (\<lambda>u. sep @ u) ts) @ sep = sep @ concat (map (\<lambda>u. u @ sep) ts)"
    by (induction ts) simp_all
  then show ?thesis using Cons by (simp add: joinWith_def)
qed

lemma reconstructPage_Nil: "reconstructPage [] = []"
  by (simp add: reconstructPage_def sortBy_def walkRuns_def)

text \<open>
  Claim C6, as amended. The reconstruction of a page is a total function of the run list:
  the empty list gives the empty string, and the page text is the text accumulated by the
  walk over the sorted runs. The document text is every page text followed by an empty
  line: for at least one page it is the page texts joined by \<open>"\n\n"\<close> with one more
  \<open>"\n\n"\<close> at the end, and for no page it is empty.
\<close>
theorem document_text_terminated:
  "reconstructPage [] = [] \<and>
   reconstructPage items = pageText (walkRuns (sortBy compareRuns (map toRun items))) \<and>
   documentText [] = [] \<and>
   (pages \<noteq> [] \<longrightarrow>
      documentText pages
        = joinWith [CHR 0x0A, CHR 0x0A] (map reconstructPage pages) @ [CHR 0x0A, CHR 0x0A]) \<and>
   parsePdf (Some (PdfPages pages)) = Inr (documentText pages)"
proof -
  have "documentText pages
        = joinWith [CHR 0x0A, CHR 0x0A] (map reconstructPage pages) @ [CHR 0x0A, CHR 0x0A]"
    if "pages \<noteq> []"
  proof -
    from that have "map reconstructPage pages \<noteq> []" by simp
    from joinWith_terminated[OF this, of "[CHR 0x0A, CHR 0x0A]"] show ?thesis
      by (simp add: documentText_concat comp_def)
  qed
  moreover have "documentText [] = []" by (simp add: documentText_def)
  moreover have "parsePdf (Some (PdfPages pages)) = Inr (documentText pages)"
    by (simp add: parsePdf_def)
  moreover have "reconstructPage items = pageText (walkRuns (sortBy compareRuns (map toRun items)))"
    by (simp add: reconstructPage_def)
  ultimately show ?thesis using reconstructPage_Nil by blast
qed

theorem document_text_terminated_witness:
  "[[run ''a'' 0 100 10 40], [run ''b'' 0 100 10 40]] \<noteq> [] \<and>
   documentText [[run ''a'' 0 100 10 40], [run ''b'' 0 100 10 40]]
     = joinWith [CHR 0x0A, CHR 0x0A]
         (map reconstructPage [[run ''a'' 0 100 10 40], [run ''b'' 0 100 10 40]])
       @ [CHR 0x0A, CHR 0x0A] \<and>
   documentText [[run ''a'' 0 100 10 40], [run ''b'' 0 100 10 40]]
     = [CHR ''a'', CHR 0x0A, CHR 0x0A, CHR ''b'', CHR 0x0A, CHR 0x0A]"
proof -
  have "documentText [[run ''a'' 0 100 10 40], [run ''b'' 0 100 10 40]]
     = [CHR ''a'', CHR 0x0A, CHR 0x0A, CHR ''b'', CHR 0x0A, CHR 0x0A]" by code_simp
  with document_text_terminated[of "[]" "[[run ''a'' 0 100 10 40], [run ''b'' 0 100 10 40]]"]
  show ?thesis by simp
qed

text \<open>
  A document of one page with the single run \<open>"a"\<close> has the text \<open>"a\n\n"\<close>, not the joined
  page texts \<open>"a"\<close>.
\<close>

theorem document_text_counterexample:
  "documentText [[run ''a'' 0 100 10 40]] = [CHR ''a'', CHR 0x0A, CHR 0x0A] \<and>
   joinWith [CHR 0x0A, CHR 0x0A] (map reconstructPage [[run ''a'' 0 100 10 40]]) = ''a'' \<and>
   documentText [[run ''a'' 0 100 10 40]]
     \<noteq> joinWith [CHR 0x0A, CHR 0x0A] (map reconstructPage [[run ''a'' 0 100 10 40]])"
  by code_simp













lemma list_all_ws_dropWhile_rev: "dropWhile isWhiteSpace (rev s) = [] \<longleftrightarrow> list_all isWhiteSpace s"
  by (simp add: dropWhile_eq_Nil_conv list_all_iff)



























section \<open>Properties of the Citation Token Parser\<close>





lemma punct_not_quote: "\<not> isQuoteChar (CHR '']'')" "\<not> isQuoteChar (CHR ''|'')"
  by (simp_all add: isQuoteChar_def)

















































lemma citationForm_digits: "citationForm m d p q \<Longrightarrow> allDigits d \<and> allDigits p"
  by (simp add: citationForm_def)







end
